theory Spec2Isabelle
  imports Complex_Main
begin

section \<open>Python floats\<close>

text \<open>
  The amounts of \<^verbatim>\<open>src/main.py\<close> are Python floats: IEEE 754 binary64 values with
  round-to-nearest, ties-to-even arithmetic. A float is modelled by the rational it denotes,
  or by one of the three non-finite values. Every arithmetic result is rounded to the nearest
  binary64 value (53 significant bits, exponent of the last bit at least -1074), and a result
  whose magnitude reaches \<open>2^1024 - 2^970\<close> overflows to an infinity. The two zeros of
  binary64 are identified: no operation of the program tells them apart.
\<close>

datatype pyfloat = Fin rat | PInf | NInf | NaN

function bit_length :: "int \<Rightarrow> int" where
  "bit_length n = (if n \<le> 0 then 0 else 1 + bit_length (n div 2))"
  by pat_completeness auto
termination
  by (relation "measure nat") auto

declare bit_length.simps [simp del]

definition pow2 :: "int \<Rightarrow> rat" where
  "pow2 k = (if 0 \<le> k then 2 ^ nat k else 1 / 2 ^ nat (- k))"

definition round_half_even :: "rat \<Rightarrow> int" where
  "round_half_even x =
     (let f = \<lfloor>x\<rfloor>; r = x - of_int f
      in if r < 1 / 2 then f
         else if 1 / 2 < r then f + 1
         else if even f then f else f + 1)"

definition floor_log2 :: "rat \<Rightarrow> int" where
  \<comment> \<open>for \<open>0 < x\<close>: the \<open>k\<close> with \<open>2^k \<le> x < 2^(k+1)\<close>\<close>
  "floor_log2 x =
     (let (n, d) = quotient_of x;
          k = bit_length n - bit_length d
      in if pow2 k \<le> x then k else k - 1)"

definition nearest_double :: "rat \<Rightarrow> rat" where
  "nearest_double x =
     (if x = 0 then 0
      else let e = max (floor_log2 \<bar>x\<bar> - 52) (- 1074)
           in of_int (round_half_even (x / pow2 e)) * pow2 e)"

definition overflow_threshold :: rat where
  "overflow_threshold = 2 ^ 1024 - 2 ^ 970"

definition to_double :: "rat \<Rightarrow> pyfloat" where
  "to_double x =
     (if overflow_threshold \<le> \<bar>x\<bar> then (if 0 < x then PInf else NInf)
      else Fin (nearest_double x))"

definition float_of_decimal :: "int \<Rightarrow> nat \<Rightarrow> pyfloat" where
  \<comment> \<open>the float read from a decimal literal: \<open>float_of_decimal 1004 3\<close> is \<^verbatim>\<open>1.004\<close>\<close>
  "float_of_decimal m n = to_double (of_int m / 10 ^ n)"

definition float_neg :: "pyfloat \<Rightarrow> pyfloat" where
  "float_neg x = (case x of Fin a \<Rightarrow> Fin (- a) | PInf \<Rightarrow> NInf | NInf \<Rightarrow> PInf | NaN \<Rightarrow> NaN)"

fun float_add :: "pyfloat \<Rightarrow> pyfloat \<Rightarrow> pyfloat" where
  "float_add NaN _ = NaN"
| "float_add _ NaN = NaN"
| "float_add PInf NInf = NaN"
| "float_add NInf PInf = NaN"
| "float_add PInf _ = PInf"
| "float_add _ PInf = PInf"
| "float_add NInf _ = NInf"
| "float_add _ NInf = NInf"
| "float_add (Fin a) (Fin b) = to_double (a + b)"

definition float_sub :: "pyfloat \<Rightarrow> pyfloat \<Rightarrow> pyfloat" where
  "float_sub x y = float_add x (float_neg y)"

definition float_sgn :: "pyfloat \<Rightarrow> int" where
  "float_sgn x =
     (case x of
        Fin a \<Rightarrow> (if a < 0 then - 1 else if a = 0 then 0 else 1)
      | PInf \<Rightarrow> 1 | NInf \<Rightarrow> - 1 | NaN \<Rightarrow> 0)"

fun float_mul :: "pyfloat \<Rightarrow> pyfloat \<Rightarrow> pyfloat" where
  "float_mul NaN _ = NaN"
| "float_mul _ NaN = NaN"
| "float_mul (Fin a) (Fin b) = to_double (a * b)"
| "float_mul x y =
     (let s = float_sgn x * float_sgn y
      in if s = 0 then NaN else if 0 < s then PInf else NInf)"

definition float_div_100 :: "pyfloat \<Rightarrow> pyfloat" where
  \<comment> \<open>\<^verbatim>\<open>x / 100.0\<close>: the only division of the program, by a non-zero constant\<close>
  "float_div_100 x = (case x of Fin a \<Rightarrow> to_double (a / 100) | _ \<Rightarrow> x)"

datatype error =
    HTTPException nat string
  | InvalidId
  | OverflowError
  | ValidationError
  | DuplicateKeyError

definition int_to_float :: "int \<Rightarrow> error + pyfloat" where
  \<comment> \<open>the conversion of \<^verbatim>\<open>int * float\<close>; it raises when the integer is out of range\<close>
  "int_to_float n =
     (if overflow_threshold \<le> \<bar>of_int n\<bar> then Inl OverflowError
      else Inr (Fin (nearest_double (of_int n))))"

definition round2 :: "pyfloat \<Rightarrow> pyfloat" where
  \<comment> \<open>\<^verbatim>\<open>round(x, 2)\<close>: the nearest two-decimal value of the exact \<open>x\<close>, ties to even, as a float\<close>
  "round2 x =
     (case x of Fin a \<Rightarrow> to_double (of_int (round_half_even (a * 100)) / 100) | _ \<Rightarrow> x)"

definition float_le :: "pyfloat \<Rightarrow> pyfloat \<Rightarrow> bool" where
  \<comment> \<open>\<^verbatim>\<open>x <= y\<close>: false as soon as one side is NaN\<close>
  "float_le x y =
     (case (x, y) of
        (NaN, _) \<Rightarrow> False
      | (_, NaN) \<Rightarrow> False
      | (NInf, _) \<Rightarrow> True
      | (_, PInf) \<Rightarrow> True
      | (Fin a, Fin b) \<Rightarrow> a \<le> b
      | _ \<Rightarrow> False)"

section \<open>Schemas (\<^verbatim>\<open>src/schemas.py\<close>) and request models (\<^verbatim>\<open>src/main.py\<close>)\<close>

record Customer =
  name :: string
  email :: string
  phone :: "string option"
  address :: "string option"
  note_text :: "string option"

record OrderItem =
  item_name :: string
  quantity :: int
  unit_price :: pyfloat
  discount_percent :: pyfloat

definition valid_OrderItem :: "OrderItem \<Rightarrow> bool" where
  \<comment> \<open>the field constraints of \<^verbatim>\<open>OrderItem\<close>: \<^verbatim>\<open>ge=1\<close>, \<^verbatim>\<open>ge=0\<close>, \<^verbatim>\<open>ge=0, le=100\<close>\<close>
  "valid_OrderItem it \<longleftrightarrow>
     1 \<le> quantity it \<and> float_le (Fin 0) (unit_price it) \<and>
     float_le (Fin 0) (discount_percent it) \<and> float_le (discount_percent it) (Fin 100)"

text \<open>The dictionary returned by \<^verbatim>\<open>compute_totals\<close>.\<close>

record totals =
  subtotal :: pyfloat
  discount_total :: pyfloat
  total :: pyfloat

text \<open>
  A stored order document: the keys written by \<^verbatim>\<open>create_order\<close>, the three keys of
  \<^verbatim>\<open>**totals\<close> first. \<^verbatim>\<open>update_order\<close> only ever sets keys (\<^verbatim>\<open>$set\<close>), so every stored
  order keeps all of them and the defaults of \<^verbatim>\<open>d.get("items", [])\<close> and
  \<^verbatim>\<open>d.get("order_discount_percent", 0)\<close> are never taken.
\<close>

record order_doc = totals +
  customer_id :: string
  status :: string
  order_discount_percent :: pyfloat
  items :: "OrderItem list"
  created_at :: nat

record OrderCreate =
  oc_customer_id :: string
  oc_status :: "string option"
  oc_order_discount_percent :: pyfloat
  oc_items :: "OrderItem list"

record OrderUpdate =
  ou_status :: "string option"
  ou_order_discount_percent :: "pyfloat option"
  ou_items :: "OrderItem list option"

section \<open>The pricing engine: \<^verbatim>\<open>compute_totals\<close>\<close>

text \<open>
  The loop of \<^verbatim>\<open>compute_totals\<close>, with its two accumulators. \<^verbatim>\<open>it.quantity * it.unit_price\<close>
  multiplies an unbounded integer by a float: the integer is converted first, and the
  conversion raises \<^verbatim>\<open>OverflowError\<close> when it is out of the range of a float.
\<close>

fun totals_loop :: "OrderItem list \<Rightarrow> pyfloat \<Rightarrow> pyfloat \<Rightarrow> error + pyfloat \<times> pyfloat" where
  "totals_loop [] sub item_discount_total = Inr (sub, item_discount_total)"
| "totals_loop (it # its) sub item_discount_total =
     (case int_to_float (quantity it) of
        Inl e \<Rightarrow> Inl e
      | Inr q \<Rightarrow>
          let line_sub = float_mul q (unit_price it);
              line_discount = float_mul line_sub (float_div_100 (discount_percent it))
          in totals_loop its (float_add sub line_sub)
               (float_add item_discount_total line_discount))"

definition compute_totals :: "OrderItem list \<Rightarrow> pyfloat \<Rightarrow> error + totals" where
  "compute_totals its odp =
     (case totals_loop its (Fin 0) (Fin 0) of
        Inl e \<Rightarrow> Inl e
      | Inr (sub, item_discount_total) \<Rightarrow>
          let after_item_discounts = float_sub sub item_discount_total;
              order_discount = float_mul after_item_discounts (float_div_100 odp);
              total_discount = float_add item_discount_total order_discount;
              tot = float_sub after_item_discounts order_discount
          in Inr \<lparr>subtotal = round2 sub,
                  discount_total = round2 total_discount,
                  total = round2 tot\<rparr>)"

section \<open>The document store\<close>

text \<open>
  \<^verbatim>\<open>bson.ObjectId(s)\<close> on a string: a string of length 24 is handed to
  \<^verbatim>\<open>bytes.fromhex\<close>, and \<^verbatim>\<open>InvalidId\<close> is raised when the length is not 24 or
  \<^verbatim>\<open>bytes.fromhex\<close> fails; no endpoint catches that error. \<^verbatim>\<open>bytes.fromhex\<close> reads
  pairs of hexadecimal digits and skips ASCII white space between the pairs, so an identifier
  read from a string with white space has fewer than 12 bytes. An identifier is modelled by
  its \<^verbatim>\<open>str\<close>, the lower-case hexadecimal digits of its bytes.
\<close>

type_synonym oid = string

definition is_hex :: "char \<Rightarrow> bool" where
  "is_hex c \<longleftrightarrow> c \<in> set ''0123456789abcdefABCDEF''"

definition is_space :: "char \<Rightarrow> bool" where
  \<comment> \<open>space, tab, line feed, vertical tab, form feed, carriage return\<close>
  "is_space c \<longleftrightarrow> (of_char c :: nat) \<in> {32, 9, 10, 11, 12, 13}"

definition to_lower :: "char \<Rightarrow> char" where
  "to_lower c =
     (if c = CHR ''A'' then CHR ''a'' else if c = CHR ''B'' then CHR ''b''
      else if c = CHR ''C'' then CHR ''c'' else if c = CHR ''D'' then CHR ''d''
      else if c = CHR ''E'' then CHR ''e'' else if c = CHR ''F'' then CHR ''f'' else c)"

fun fromhex :: "string \<Rightarrow> string option" where
  "fromhex [] = Some []"
| "fromhex [c] = (if is_space c then Some [] else None)"
| "fromhex (c # c' # cs) =
     (if is_space c then fromhex (c' # cs)
      else if is_hex c \<and> is_hex c' then
        map_option (\<lambda>rest. to_lower c # to_lower c' # rest) (fromhex cs)
      else None)"

definition ObjectId :: "string \<Rightarrow> error + oid" where
  "ObjectId s =
     (if length s = 24 then (case fromhex s of None \<Rightarrow> Inl InvalidId | Some h \<Rightarrow> Inr h)
      else Inl InvalidId)"

text \<open>
  A collection is the list of its documents, each with its \<^verbatim>\<open>_id\<close>, in insertion order.
  \<^verbatim>\<open>find_one\<close>, \<^verbatim>\<open>update_one\<close> and \<^verbatim>\<open>delete_one\<close> act on the first document that
  matches; the last two also report how many documents they touched. Before it sends a
  document, the driver encodes it as BSON, and the encoder raises \<^verbatim>\<open>OverflowError\<close> on an
  integer that does not fit in 8 bytes; the only integers of the documents are the
  quantities of the items.
\<close>

type_synonym 'd collection = "(oid \<times> 'd) list"

record db =
  customer_coll :: "Customer collection"
  order_coll :: "order_doc collection"

definition find_one :: "'d collection \<Rightarrow> oid \<Rightarrow> 'd option" where
  \<comment> \<open>\<^verbatim>\<open>find_one({"_id": k})\<close>\<close>
  "find_one coll k = map_of coll k"

definition find_one_email :: "Customer collection \<Rightarrow> string \<Rightarrow> (oid \<times> Customer) option" where
  \<comment> \<open>\<^verbatim>\<open>find_one({"email": e})\<close>: equality of strings\<close>
  "find_one_email coll e = find (\<lambda>(k, c). email c = e) coll"

fun modify_first :: "'d collection \<Rightarrow> oid \<Rightarrow> ('d \<Rightarrow> 'd) \<Rightarrow> 'd collection \<times> nat" where
  "modify_first [] k f = ([], 0)"
| "modify_first ((k', d) # rest) k f =
     (if k' = k then ((k', f d) # rest, 1)
      else (case modify_first rest k f of
              (rest', matched_count) \<Rightarrow> ((k', d) # rest', matched_count)))"

fun delete_one :: "'d collection \<Rightarrow> oid \<Rightarrow> 'd collection \<times> nat" where
  "delete_one [] k = ([], 0)"
| "delete_one ((k', d) # rest) k =
     (if k' = k then (rest, 1)
      else (case delete_one rest k of
              (rest', deleted_count) \<Rightarrow> ((k', d) # rest', deleted_count)))"

definition update_one ::
  "'d collection \<Rightarrow> oid \<Rightarrow> bool \<Rightarrow> ('d \<Rightarrow> 'd) \<Rightarrow> error + 'd collection \<times> nat" where
  \<comment> \<open>\<^verbatim>\<open>update_one({"_id": k}, {"$set": fields})\<close>: \<open>encodable\<close> tells whether \<^verbatim>\<open>fields\<close>
      can be encoded, \<open>f\<close> is what setting them does to a document\<close>
  "update_one coll k encodable f =
     (if encodable then Inr (modify_first coll k f) else Inl OverflowError)"

definition create_document ::
  "'d collection \<Rightarrow> oid \<Rightarrow> bool \<Rightarrow> 'd \<Rightarrow> error + 'd collection" where
  \<comment> \<open>Modelled from the spec: \<^verbatim>\<open>create_document\<close> of \<^verbatim>\<open>database.py\<close>, which is not
      among the sources. Section 6 of the specification asks for an insert; the document goes
      in under the identifier \<open>new_id\<close> that the driver generates, when the driver can encode
      it (\<open>encodable\<close>), and the store refuses an identifier that is already in the
      collection. The creation timestamp that section 6 asks for is the field \<open>created_at\<close>
      of the document handed in.\<close>
  "create_document coll new_id encodable doc =
     (if \<not> encodable then Inl OverflowError
      else if find_one coll new_id \<noteq> None then Inl DuplicateKeyError
      else Inr (coll @ [(new_id, doc)]))"

definition int64 :: "int \<Rightarrow> bool" where
  "int64 n \<longleftrightarrow> - (2 ^ 63) \<le> n \<and> n < 2 ^ 63"

definition bson_encodable :: "OrderItem list \<Rightarrow> bool" where
  "bson_encodable its = list_all (\<lambda>it. int64 (quantity it)) its"

section \<open>Customers\<close>

text \<open>
  Every endpoint takes the store and returns its answer together with the store it leaves
  behind, so that what a failed call has written is part of the result. In
  \<^verbatim>\<open>create_customer\<close> and \<^verbatim>\<open>create_order\<close>, \<open>new_id\<close> is the identifier of the inserted
  document; \<^verbatim>\<open>ObjectId(new_id)\<close> reads back the string that \<^verbatim>\<open>create_document\<close>
  returned for it, and \<^verbatim>\<open>to_str_id\<close> turns the \<^verbatim>\<open>_id\<close> of the answer into that string
  again.
\<close>

definition create_customer ::
  "db \<Rightarrow> oid \<Rightarrow> Customer \<Rightarrow> (error + (oid \<times> Customer) option) \<times> db" where
  "create_customer s new_id customer =
     (case find_one_email (customer_coll s) (email customer) of
        Some existing \<Rightarrow> (Inl (HTTPException 400 ''Email already exists''), s)
      | None \<Rightarrow>
          (case create_document (customer_coll s) new_id True customer of
             Inl e \<Rightarrow> (Inl e, s)
           | Inr coll' \<Rightarrow>
               (Inr (map_option (Pair new_id) (find_one coll' new_id)),
                s\<lparr>customer_coll := coll'\<rparr>)))"

definition update_customer ::
  "db \<Rightarrow> string \<Rightarrow> Customer \<Rightarrow> (error + (oid \<times> Customer) option) \<times> db" where
  "update_customer s cust_id customer =
     (case ObjectId cust_id of
        Inl e \<Rightarrow> (Inl e, s)
      | Inr k \<Rightarrow>
          (case update_one (customer_coll s) k True (\<lambda>_. customer) of
             Inl e \<Rightarrow> (Inl e, s)
           | Inr (coll', matched_count) \<Rightarrow>
               let s' = s\<lparr>customer_coll := coll'\<rparr>
               in if matched_count = 0
                  then (Inl (HTTPException 404 ''Customer not found''), s')
                  else (Inr (map_option (Pair k) (find_one coll' k)), s')))"

definition delete_customer :: "db \<Rightarrow> string \<Rightarrow> (error + bool) \<times> db" where
  "delete_customer s cust_id =
     (case ObjectId cust_id of
        Inl e \<Rightarrow> (Inl e, s)
      | Inr k \<Rightarrow>
          let (coll', deleted_count) = delete_one (customer_coll s) k;
              s' = s\<lparr>customer_coll := coll'\<rparr>
          in if deleted_count = 0 then (Inl (HTTPException 404 ''Customer not found''), s')
             else (Inr True, s'))"

section \<open>Orders\<close>

definition create_order ::
  "db \<Rightarrow> oid \<Rightarrow> nat \<Rightarrow> OrderCreate \<Rightarrow> (error + (oid \<times> order_doc) option) \<times> db" where
  "create_order s new_id now payload =
     (case ObjectId (oc_customer_id payload) of
        Inl e \<Rightarrow> (Inl e, s)
      | Inr k \<Rightarrow>
          (case find_one (customer_coll s) k of
             None \<Rightarrow> (Inl (HTTPException 400 ''Invalid customer_id''), s)
           | Some cust \<Rightarrow>
               (case compute_totals (oc_items payload) (oc_order_discount_percent payload) of
                  Inl e \<Rightarrow> (Inl e, s)
                | Inr t \<Rightarrow>
                    let doc = \<lparr>subtotal = subtotal t,
                               discount_total = discount_total t,
                               total = total t,
                               customer_id = oc_customer_id payload,
                               status = (case oc_status payload of
                                           None \<Rightarrow> ''Pending''
                                         | Some st \<Rightarrow> if st = [] then ''Pending'' else st),
                               order_discount_percent = oc_order_discount_percent payload,
                               items = oc_items payload,
                               created_at = now\<rparr>
                    in (case create_document (order_coll s) new_id
                               (bson_encodable (items doc)) doc of
                          Inl e \<Rightarrow> (Inl e, s)
                        | Inr coll' \<Rightarrow>
                            (Inr (map_option (Pair new_id) (find_one coll' new_id)),
                             s\<lparr>order_coll := coll'\<rparr>)))))"

text \<open>
  \<^verbatim>\<open>get_order\<close> adds the key \<^verbatim>\<open>customer_name\<close> to the answer: the third component, \<open>None\<close>
  for Python's \<^verbatim>\<open>None\<close>. It writes nothing.
\<close>

definition get_order :: "db \<Rightarrow> string \<Rightarrow> error + oid \<times> order_doc \<times> string option" where
  "get_order s order_id =
     (case ObjectId order_id of
        Inl e \<Rightarrow> Inl e
      | Inr k \<Rightarrow>
          (case find_one (order_coll s) k of
             None \<Rightarrow> Inl (HTTPException 404 ''Order not found'')
           | Some d \<Rightarrow>
               if customer_id d = [] then Inr (k, d, None)
               else (case ObjectId (customer_id d) of
                       Inl e \<Rightarrow> Inl e
                     | Inr ck \<Rightarrow>
                         Inr (k, d, map_option name (find_one (customer_coll s) ck)))))"

text \<open>
  The dictionary \<^verbatim>\<open>update_fields\<close> of \<^verbatim>\<open>update_order\<close>: a key that is absent is \<open>None\<close>.
  The three keys of \<^verbatim>\<open>update_fields.update(totals)\<close> come and go together.
\<close>

record update_fields =
  uf_status :: "string option"
  uf_items :: "OrderItem list option"
  uf_order_discount_percent :: "pyfloat option"
  uf_totals :: "totals option"

definition set_fields :: "update_fields \<Rightarrow> order_doc \<Rightarrow> order_doc" where
  \<comment> \<open>\<^verbatim>\<open>{"$set": update_fields}\<close>\<close>
  "set_fields uf d =
     (let d1 = (case uf_status uf of None \<Rightarrow> d | Some st \<Rightarrow> d\<lparr>status := st\<rparr>);
          d2 = (case uf_items uf of None \<Rightarrow> d1 | Some its \<Rightarrow> d1\<lparr>items := its\<rparr>);
          d3 = (case uf_order_discount_percent uf of
                  None \<Rightarrow> d2 | Some x \<Rightarrow> d2\<lparr>order_discount_percent := x\<rparr>)
      in case uf_totals uf of
           None \<Rightarrow> d3
         | Some t \<Rightarrow> d3\<lparr>subtotal := subtotal t,
                         discount_total := discount_total t,
                         total := total t\<rparr>)"

definition encodable_fields :: "update_fields \<Rightarrow> bool" where
  \<comment> \<open>whether the driver can encode \<^verbatim>\<open>update_fields\<close>\<close>
  "encodable_fields uf =
     (case uf_items uf of None \<Rightarrow> True | Some its \<Rightarrow> bson_encodable its)"

definition OrderItem_of_doc :: "OrderItem \<Rightarrow> error + OrderItem" where
  \<comment> \<open>\<^verbatim>\<open>OrderItem(**it)\<close> on a stored item: the model validates its fields again\<close>
  "OrderItem_of_doc it = (if valid_OrderItem it then Inr it else Inl ValidationError)"

fun OrderItems_of_docs :: "OrderItem list \<Rightarrow> error + OrderItem list" where
  "OrderItems_of_docs [] = Inr []"
| "OrderItems_of_docs (it # its) =
     (case OrderItem_of_doc it of
        Inl e \<Rightarrow> Inl e
      | Inr i \<Rightarrow> (case OrderItems_of_docs its of Inl e \<Rightarrow> Inl e | Inr is \<Rightarrow> Inr (i # is)))"

definition build_update_fields :: "order_doc \<Rightarrow> OrderUpdate \<Rightarrow> error + update_fields" where
  \<comment> \<open>lines 165 to 178 of \<^verbatim>\<open>update_order\<close>\<close>
  "build_update_fields d payload =
     (let uf = \<lparr>uf_status = ou_status payload,
                uf_items = ou_items payload,
                uf_order_discount_percent = ou_order_discount_percent payload,
                uf_totals = None\<rparr>
      in if ou_items payload \<noteq> None \<or> ou_order_discount_percent payload \<noteq> None then
           (case (case ou_items payload of
                    Some its \<Rightarrow> Inr its
                  | None \<Rightarrow> OrderItems_of_docs (items d)) of
              Inl e \<Rightarrow> Inl e
            | Inr its \<Rightarrow>
                (case compute_totals its
                        (case ou_order_discount_percent payload of
                           Some x \<Rightarrow> x
                         | None \<Rightarrow> order_discount_percent d) of
                   Inl e \<Rightarrow> Inl e
                 | Inr t \<Rightarrow> Inr (uf\<lparr>uf_totals := Some t\<rparr>)))
         else Inr uf)"

definition no_fields :: "update_fields \<Rightarrow> bool" where
  \<comment> \<open>\<^verbatim>\<open>not update_fields\<close>: the dictionary is empty\<close>
  "no_fields uf \<longleftrightarrow>
     uf_status uf = None \<and> uf_items uf = None \<and>
     uf_order_discount_percent uf = None \<and> uf_totals uf = None"

definition update_order ::
  "db \<Rightarrow> string \<Rightarrow> OrderUpdate \<Rightarrow> (error + (oid \<times> order_doc) option) \<times> db" where
  "update_order s order_id payload =
     (case ObjectId order_id of
        Inl e \<Rightarrow> (Inl e, s)
      | Inr k \<Rightarrow>
          (case find_one (order_coll s) k of
             None \<Rightarrow> (Inl (HTTPException 404 ''Order not found''), s)
           | Some d \<Rightarrow>
               (case build_update_fields d payload of
                  Inl e \<Rightarrow> (Inl e, s)
                | Inr uf \<Rightarrow>
                    if no_fields uf then (Inr (Some (k, d)), s)
                    else (case update_one (order_coll s) k (encodable_fields uf)
                                 (set_fields uf) of
                            Inl e \<Rightarrow> (Inl e, s)
                          | Inr (coll', matched_count) \<Rightarrow>
                              (Inr (map_option (Pair k) (find_one coll' k)),
                               s\<lparr>order_coll := coll'\<rparr>)))))"

definition delete_order :: "db \<Rightarrow> string \<Rightarrow> (error + bool) \<times> db" where
  "delete_order s order_id =
     (case ObjectId order_id of
        Inl e \<Rightarrow> (Inl e, s)
      | Inr k \<Rightarrow>
          let (coll', deleted_count) = delete_one (order_coll s) k;
              s' = s\<lparr>order_coll := coll'\<rparr>
          in if deleted_count = 0 then (Inl (HTTPException 404 ''Order not found''), s')
             else (Inr True, s'))"

text \<open>
  The body of a \<^verbatim>\<open>PUT /orders/{order_id}\<close> request, as far as the keys of an order go.
  \<^verbatim>\<open>OrderUpdate\<close> declares three fields and no configuration, so the parser keeps these
  three and drops every other key of the body.
\<close>

record OrderUpdate_body =
  body_status :: "string option"
  body_order_discount_percent :: "pyfloat option"
  body_items :: "OrderItem list option"
  body_customer_id :: "string option"
  body_subtotal :: "pyfloat option"
  body_discount_total :: "pyfloat option"
  body_total :: "pyfloat option"

definition parse_OrderUpdate :: "OrderUpdate_body \<Rightarrow> OrderUpdate" where
  "parse_OrderUpdate b =
     \<lparr>ou_status = body_status b,
      ou_order_discount_percent = body_order_discount_percent b,
      ou_items = body_items b\<rparr>"

definition put_order ::
  "db \<Rightarrow> string \<Rightarrow> OrderUpdate_body \<Rightarrow> (error + (oid \<times> order_doc) option) \<times> db" where
  "put_order s order_id b = update_order s order_id (parse_OrderUpdate b)"

section \<open>The states of the store\<close>

text \<open>
  The request bodies are validated against \<^verbatim>\<open>OrderCreate\<close> and \<^verbatim>\<open>OrderUpdate\<close> before
  an endpoint runs: every item of the payload meets the constraints of \<^verbatim>\<open>OrderItem\<close>.
  Neither model constrains \<^verbatim>\<open>order_discount_percent\<close>.
\<close>

definition valid_OrderCreate :: "OrderCreate \<Rightarrow> bool" where
  "valid_OrderCreate p \<longleftrightarrow> list_all valid_OrderItem (oc_items p)"

definition valid_OrderUpdate :: "OrderUpdate \<Rightarrow> bool" where
  "valid_OrderUpdate u \<longleftrightarrow>
     (case ou_items u of None \<Rightarrow> True | Some its \<Rightarrow> list_all valid_OrderItem its)"

text \<open>
  The stores that the endpoints can produce from the empty one, whether the call succeeds or
  fails.
\<close>

definition empty_db :: db where
  "empty_db = \<lparr>customer_coll = [], order_coll = []\<rparr>"

inductive reachable :: "db \<Rightarrow> bool" where
  reach_empty: "reachable empty_db"
| reach_create_customer:
    "reachable s \<Longrightarrow> create_customer s new_id c = (r, s') \<Longrightarrow> reachable s'"
| reach_update_customer:
    "reachable s \<Longrightarrow> update_customer s cid c = (r, s') \<Longrightarrow> reachable s'"
| reach_delete_customer:
    "reachable s \<Longrightarrow> delete_customer s cid = (rb, s') \<Longrightarrow> reachable s'"
| reach_create_order:
    "reachable s \<Longrightarrow> valid_OrderCreate p \<Longrightarrow> create_order s new_id now p = (ro, s') \<Longrightarrow>
     reachable s'"
| reach_update_order:
    "reachable s \<Longrightarrow> valid_OrderUpdate u \<Longrightarrow> update_order s order_id u = (ro, s') \<Longrightarrow>
     reachable s'"
| reach_delete_order:
    "reachable s \<Longrightarrow> delete_order s order_id = (rb, s') \<Longrightarrow> reachable s'"

definition priced :: "order_doc \<Rightarrow> bool" where
  \<comment> \<open>the derived fields are what the pricing engine gives for the stored items and discount\<close>
  "priced d \<longleftrightarrow>
     compute_totals (items d) (order_discount_percent d) =
       Inr \<lparr>subtotal = subtotal d, discount_total = discount_total d, total = total d\<rparr>"

definition finite_float :: "pyfloat \<Rightarrow> bool" where
  \<comment> \<open>a number, neither an infinity nor NaN, within the range of a float\<close>
  "finite_float x = (case x of Fin a \<Rightarrow> \<bar>a\<bar> < overflow_threshold | _ \<Rightarrow> False)"

definition resolves :: "db \<Rightarrow> string \<Rightarrow> bool" where
  \<comment> \<open>the customer id is a well-formed identifier of a stored customer\<close>
  "resolves s cid =
     (case ObjectId cid of Inl e \<Rightarrow> False | Inr k \<Rightarrow> find_one (customer_coll s) k \<noteq> None)"

section \<open>A store to try the endpoints on\<close>

definition example_cid :: string where
  "example_cid = ''64b7f0c2a1b2c3d4e5f60718''"

definition example_oid :: string where
  "example_oid = ''64b7f0c2a1b2c3d4e5f60719''"

definition example_customer :: Customer where
  "example_customer =
     \<lparr>name = ''Ada'', email = ''ada@example.org'', phone = None, address = None,
      note_text = None\<rparr>"

definition example_item :: OrderItem where
  "example_item =
     \<lparr>item_name = ''widget'', quantity = 2, unit_price = Fin 50, discount_percent = Fin 10\<rparr>"

definition example_order :: OrderCreate where
  "example_order =
     \<lparr>oc_customer_id = example_cid, oc_status = None, oc_order_discount_percent = Fin 5,
      oc_items = [example_item]\<rparr>"

definition example_doc :: order_doc where
  "example_doc =
     \<lparr>subtotal = Fin 100, discount_total = Fin (29 / 2), total = Fin (171 / 2),
      customer_id = example_cid, status = ''Pending'', order_discount_percent = Fin 5,
      items = [example_item], created_at = 0\<rparr>"

definition db_customer :: db where
  "db_customer = \<lparr>customer_coll = [(example_cid, example_customer)], order_coll = []\<rparr>"

definition db_order :: db where
  "db_order =
     \<lparr>customer_coll = [(example_cid, example_customer)],
      order_coll = [(example_oid, example_doc)]\<rparr>"

text \<open>An item priced to a tenth of a cent, and an order of one of them at 0.6 percent off.\<close>

definition fuel_discount :: pyfloat where
  "fuel_discount = float_of_decimal 6 1"

definition fuel_item :: OrderItem where
  "fuel_item =
     \<lparr>item_name = ''fuel'', quantity = 1, unit_price = float_of_decimal 1004 3,
      discount_percent = Fin 0\<rparr>"

definition fuel_order :: OrderCreate where
  "fuel_order =
     \<lparr>oc_customer_id = example_cid, oc_status = None,
      oc_order_discount_percent = fuel_discount, oc_items = [fuel_item]\<rparr>"

definition fuel_doc :: order_doc where
  "fuel_doc =
     \<lparr>subtotal = Fin 1, discount_total = float_of_decimal 1 2, total = Fin 1,
      customer_id = example_cid, status = ''Pending'',
      order_discount_percent = fuel_discount, items = [fuel_item], created_at = 0\<rparr>"

definition db_fuel :: db where
  "db_fuel =
     \<lparr>customer_coll = [(example_cid, example_customer)],
      order_coll = [(example_oid, fuel_doc)]\<rparr>"


text \<open>A store whose only order carries derived fields that no pricing produced.\<close>

definition stale_doc :: order_doc where
  "stale_doc =
     \<lparr>subtotal = Fin 7, discount_total = Fin 7, total = Fin 7,
      customer_id = example_cid, status = ''Pending'', order_discount_percent = Fin 5,
      items = [example_item], created_at = 0\<rparr>"

definition db_stale :: db where
  "db_stale =
     \<lparr>customer_coll = [(example_cid, example_customer)],
      order_coll = [(example_oid, stale_doc)]\<rparr>"

section \<open>Facts about floats\<close>

lemma overflow_threshold_code [code]:
  "overflow_threshold =
     179769313486231580793728971405303415079934132710037826936173778980444968292764750946649017977587207096330286416692887910946555547851940402630657488671505820681908902000708383676273854845817711531764475730270069855571366959622842914819860834936475292719074168444365510704342711559699508093042880177904174497792"
  unfolding overflow_threshold_def by simp

lemma overflow_threshold_gt_1: "1 < overflow_threshold"
  unfolding overflow_threshold_code by simp

lemma nearest_double_0 [simp]: "nearest_double 0 = 0"
  by (simp add: nearest_double_def)

lemma to_double_0 [simp]: "to_double 0 = Fin 0"
  using overflow_threshold_gt_1 by (simp add: to_double_def)

lemma to_double_small: "\<bar>x\<bar> \<le> 1 \<Longrightarrow> to_double x = Fin (nearest_double x)"
  using overflow_threshold_gt_1 by (simp add: to_double_def)

lemma round_half_even_0 [simp]: "round_half_even 0 = 0"
  by (simp add: round_half_even_def)

lemma round2_0 [simp]: "round2 (Fin 0) = Fin 0"
  by (simp add: round2_def)

text \<open>
  The model on values that Python prints: \<^verbatim>\<open>0.1\<close> is the binary64 value
  \<open>3602879701896397 / 2^55\<close>, \<^verbatim>\<open>round(2.675, 2)\<close> is \<^verbatim>\<open>2.67\<close> because the float lies
  below the tie, and \<^verbatim>\<open>round(0.125, 2)\<close> is \<^verbatim>\<open>0.12\<close> because the tie goes to the even
  digit.
\<close>

lemma float_one_tenth: "float_of_decimal 1 1 = Fin (3602879701896397 / 36028797018963968)"
  by code_simp

lemma round2_below_tie: "round2 (float_of_decimal 2675 3) = float_of_decimal 267 2"
  by code_simp

lemma round2_tie_to_even: "round2 (Fin (1 / 8)) = float_of_decimal 12 2"
  by code_simp

section \<open>Facts about collections\<close>

lemma modify_first_found:
  "find_one coll k = Some d \<Longrightarrow>
   snd (modify_first coll k f) = 1 \<and> find_one (fst (modify_first coll k f)) k = Some (f d)"
  by (induction coll) (auto simp: find_one_def split: prod.splits)

lemma modify_first_missing:
  "find_one coll k = None \<Longrightarrow> modify_first coll k f = (coll, 0)"
  by (induction coll) (auto simp: find_one_def split: prod.splits if_splits)

lemma modify_first_other:
  "k' \<noteq> k \<Longrightarrow> find_one (fst (modify_first coll k f)) k' = find_one coll k'"
  by (induction coll) (auto simp: find_one_def split: prod.splits)

lemma modify_first_keys: "map fst (fst (modify_first coll k f)) = map fst coll"
  by (induction coll) (auto split: prod.splits)

lemma modify_first_set:
  "(k', d') \<in> set (fst (modify_first coll k f)) \<Longrightarrow>
   (k', d') \<in> set coll \<or> (k' = k \<and> (\<exists>d. find_one coll k = Some d \<and> d' = f d))"
  by (induction coll) (auto simp: find_one_def split: prod.splits if_splits)

lemma delete_one_set: "set (fst (delete_one coll k)) \<subseteq> set coll"
  by (induction coll) (auto split: prod.splits if_splits)

lemma delete_one_keys:
  "distinct (map fst coll) \<Longrightarrow> distinct (map fst (fst (delete_one coll k)))"
proof (induction coll)
  case Nil
  then show ?case by simp
next
  case (Cons a coll)
  obtain k' d where a: "a = (k', d)" by (cases a)
  obtain rest' n where r: "delete_one coll k = (rest', n)" by (cases "delete_one coll k")
  have sub: "set rest' \<subseteq> set coll"
    using delete_one_set [of coll k] r by simp
  have d: "distinct (map fst rest')"
    using Cons r by simp
  have "k' \<notin> fst ` set rest'"
    using Cons.prems a sub by auto
  with d Cons.prems show ?case
    by (simp add: a r)
qed

lemma delete_one_gone_key:
  "distinct (map fst coll) \<Longrightarrow> k \<notin> fst ` set (fst (delete_one coll k))"
proof (induction coll)
  case Nil
  then show ?case by simp
next
  case (Cons a coll)
  obtain k' d where a: "a = (k', d)" by (cases a)
  obtain rest' n where r: "delete_one coll k = (rest', n)" by (cases "delete_one coll k")
  have ih: "k \<notin> fst ` set rest'"
    using Cons r by simp
  show ?case
  proof (cases "k' = k")
    case True
    then show ?thesis using Cons.prems a by simp
  next
    case False
    then show ?thesis using ih a r by simp
  qed
qed

lemma delete_one_gone:
  "distinct (map fst coll) \<Longrightarrow> find_one (fst (delete_one coll k)) k = None"
  using delete_one_gone_key [of coll k] by (simp add: find_one_def map_of_eq_None_iff)

lemma delete_one_count:
  "snd (delete_one coll k) = (if find_one coll k = None then 0 else 1)"
  by (induction coll) (auto simp: find_one_def split: prod.splits)

lemma find_one_set: "find_one coll k = Some d \<Longrightarrow> (k, d) \<in> set coll"
  by (simp add: find_one_def map_of_SomeD)

lemma create_document_keys:
  "distinct (map fst coll) \<Longrightarrow> create_document coll new_id enc doc = Inr coll' \<Longrightarrow>
   distinct (map fst coll')"
  by (auto simp: create_document_def find_one_def map_of_eq_None_iff split: if_splits)

section \<open>Facts about the pricing engine\<close>

lemma finite_float_div_100:
  "finite_float x \<Longrightarrow> \<exists>y. float_div_100 x = Fin y"
proof (cases x)
  case (Fin a)
  assume "finite_float x"
  with Fin have "\<bar>a\<bar> < overflow_threshold" by (simp add: finite_float_def)
  moreover have "\<bar>a / 100\<bar> \<le> \<bar>a\<bar>" by simp
  ultimately have "\<not> overflow_threshold \<le> \<bar>a / 100\<bar>" by linarith
  then show ?thesis using Fin by (simp add: float_div_100_def to_double_def)
qed (simp_all add: finite_float_def)

lemma compute_totals_empty:
  assumes "finite_float x"
  shows "compute_totals [] x = Inr \<lparr>subtotal = Fin 0, discount_total = Fin 0, total = Fin 0\<rparr>"
proof -
  obtain y where y: "float_div_100 x = Fin y"
    using finite_float_div_100 [OF assms] by blast
  show ?thesis
    by (simp add: compute_totals_def y float_sub_def float_neg_def Let_def)
qed

lemma OrderItems_of_docs_valid:
  "list_all valid_OrderItem its \<Longrightarrow> OrderItems_of_docs its = Inr its"
  by (induction its) (simp_all add: OrderItem_of_doc_def)

lemma OrderItems_of_docs_Inr:
  "OrderItems_of_docs its = Inr its' \<Longrightarrow> its' = its"
  by (induction its arbitrary: its') (auto simp: OrderItem_of_doc_def split: if_splits sum.splits)

lemma compute_totals_example:
  "compute_totals [example_item] (Fin 5) =
     Inr \<lparr>subtotal = Fin 100, discount_total = Fin (29 / 2), total = Fin (171 / 2)\<rparr>"
  by code_simp

lemma compute_totals_fuel:
  "compute_totals [fuel_item] fuel_discount =
     Inr \<lparr>subtotal = Fin 1, discount_total = float_of_decimal 1 2, total = Fin 1\<rparr>"
  by code_simp

lemma ObjectId_example_cid: "ObjectId example_cid = Inr example_cid"
  by code_simp

lemma ObjectId_example_oid: "ObjectId example_oid = Inr example_oid"
  by code_simp

lemma ObjectId_with_blanks:
  "ObjectId ''64b7f0c2a1b2c3d4e5f607  '' = Inr ''64b7f0c2a1b2c3d4e5f607''"
  by code_simp

section \<open>Facts about the endpoints\<close>

lemma set_fields_simps:
  "status (set_fields uf d) = (case uf_status uf of None \<Rightarrow> status d | Some st \<Rightarrow> st)"
  "items (set_fields uf d) = (case uf_items uf of None \<Rightarrow> items d | Some its \<Rightarrow> its)"
  "order_discount_percent (set_fields uf d) =
     (case uf_order_discount_percent uf of None \<Rightarrow> order_discount_percent d | Some x \<Rightarrow> x)"
  "subtotal (set_fields uf d) = (case uf_totals uf of None \<Rightarrow> subtotal d | Some t \<Rightarrow> subtotal t)"
  "discount_total (set_fields uf d) =
     (case uf_totals uf of None \<Rightarrow> discount_total d | Some t \<Rightarrow> discount_total t)"
  "total (set_fields uf d) = (case uf_totals uf of None \<Rightarrow> total d | Some t \<Rightarrow> total t)"
  "customer_id (set_fields uf d) = customer_id d"
  "created_at (set_fields uf d) = created_at d"
  by (simp_all add: set_fields_def Let_def split: option.splits)

lemma build_update_fields_Inr:
  assumes "build_update_fields d u = Inr uf"
  shows "uf_status uf = ou_status u \<and> uf_items uf = ou_items u \<and>
         uf_order_discount_percent uf = ou_order_discount_percent u \<and>
         (if ou_items u = None \<and> ou_order_discount_percent u = None then uf_totals uf = None
          else \<exists>t. uf_totals uf = Some t \<and>
                 compute_totals (case ou_items u of Some its \<Rightarrow> its | None \<Rightarrow> items d)
                   (case ou_order_discount_percent u of
                      Some x \<Rightarrow> x | None \<Rightarrow> order_discount_percent d) = Inr t)"
proof (cases "ou_items u = None \<and> ou_order_discount_percent u = None")
  case True
  with assms show ?thesis by (auto simp: build_update_fields_def)
next
  case False
  show ?thesis
  proof (cases "ou_items u")
    case None
    with False assms obtain its where its: "OrderItems_of_docs (items d) = Inr its"
      by (auto simp: build_update_fields_def Let_def split: sum.splits)
    then have "its = items d" by (rule OrderItems_of_docs_Inr)
    with its None False assms show ?thesis
      by (auto simp: build_update_fields_def Let_def split: sum.splits)
  next
    case (Some its)
    with assms show ?thesis
      by (auto simp: build_update_fields_def Let_def split: sum.splits)
  qed
qed

lemma set_fields_priced:
  assumes "build_update_fields d u = Inr uf" and "priced d"
  shows "priced (set_fields uf d)"
proof -
  note b = build_update_fields_Inr [OF assms(1)]
  show ?thesis
  proof (cases "ou_items u = None \<and> ou_order_discount_percent u = None")
    case True
    with b assms(2) show ?thesis by (simp add: priced_def set_fields_simps)
  next
    case False
    with b obtain t where "uf_totals uf = Some t"
      "compute_totals (case ou_items u of Some its \<Rightarrow> its | None \<Rightarrow> items d)
         (case ou_order_discount_percent u of
            Some x \<Rightarrow> x | None \<Rightarrow> order_discount_percent d) = Inr t"
      by auto
    with b show ?thesis
      by (cases t) (auto simp: priced_def set_fields_simps split: option.splits)
  qed
qed

lemma set_fields_valid_items:
  assumes "build_update_fields d u = Inr uf" and "valid_OrderUpdate u"
    and "list_all valid_OrderItem (items d)"
  shows "list_all valid_OrderItem (items (set_fields uf d))"
  using build_update_fields_Inr [OF assms(1)] assms(2,3)
  by (auto simp: set_fields_simps valid_OrderUpdate_def split: option.splits)

lemma update_order_effect:
  assumes "update_order s order_id u = (r, s')"
  shows "customer_coll s' = customer_coll s \<and>
         (s' = s \<or>
          (\<exists>k d uf. ObjectId order_id = Inr k \<and> find_one (order_coll s) k = Some d \<and>
             build_update_fields d u = Inr uf \<and>
             order_coll s' = fst (modify_first (order_coll s) k (set_fields uf))))"
  using assms
  by (auto simp: update_order_def update_one_def Let_def
           split: sum.splits option.splits if_splits prod.splits)

lemma create_order_effect:
  assumes "create_order s new_id now p = (r, s')"
  shows "customer_coll s' = customer_coll s \<and>
         (s' = s \<or>
          (\<exists>t st. compute_totals (oc_items p) (oc_order_discount_percent p) = Inr t \<and>
             order_coll s' = order_coll s @
               [(new_id, \<lparr>subtotal = subtotal t, discount_total = discount_total t,
                           total = total t, customer_id = oc_customer_id p, status = st,
                           order_discount_percent = oc_order_discount_percent p,
                           items = oc_items p, created_at = now\<rparr>)]))"
  using assms
  by (auto simp: create_order_def create_document_def Let_def
           split: sum.splits option.splits if_splits)

lemma delete_one_mem: "x \<in> set (fst (delete_one coll k)) \<Longrightarrow> x \<in> set coll"
  using delete_one_set [of coll k] by blast

lemma delete_order_effect:
  assumes "delete_order s order_id = (r, s')"
  shows "customer_coll s' = customer_coll s \<and> set (order_coll s') \<subseteq> set (order_coll s)"
  using assms
  by (auto simp: delete_order_def Let_def split_beta split: sum.splits if_splits
           dest: delete_one_mem)

lemma create_customer_effect:
  assumes "create_customer s new_id c = (r, s')"
  shows "order_coll s' = order_coll s \<and>
         (s' = s \<or> create_document (customer_coll s) new_id True c = Inr (customer_coll s'))"
  using assms
  by (auto simp: create_customer_def split: sum.splits option.splits)

lemma update_customer_effect:
  assumes "update_customer s cid c = (r, s')"
  shows "order_coll s' = order_coll s \<and>
         map fst (customer_coll s') = map fst (customer_coll s)"
  using assms modify_first_keys [of "customer_coll s" _ "\<lambda>_. c"]
  by (auto simp: update_customer_def update_one_def Let_def split_beta
           split: sum.splits if_splits)

lemma delete_customer_effect:
  assumes "delete_customer s cid = (r, s')"
  shows "order_coll s' = order_coll s \<and>
         (s' = s \<or> (\<exists>k. customer_coll s' = fst (delete_one (customer_coll s) k)))"
  using assms
  by (auto simp: delete_customer_def Let_def split_beta split: sum.splits if_splits)

section \<open>Invariants of the store\<close>

lemma reachable_customer_keys: "reachable s \<Longrightarrow> distinct (map fst (customer_coll s))"
proof (induction rule: reachable.induct)
  case reach_empty
  show ?case by (simp add: empty_db_def)
next
  case (reach_create_customer s new_id c r s')
  then show ?case
    using create_customer_effect [of s new_id c r s'] create_document_keys by auto
next
  case (reach_update_customer s cid c r s')
  then show ?case
    using update_customer_effect [of s cid c r s'] by simp
next
  case (reach_delete_customer s cid rb s')
  then show ?case
    using delete_customer_effect [of s cid rb s'] delete_one_keys by auto
next
  case (reach_create_order s p new_id now ro s')
  then show ?case
    using create_order_effect [of s new_id now p ro s'] by simp
next
  case (reach_update_order s u order_id ro s')
  then show ?case
    using update_order_effect [of s order_id u ro s'] by simp
next
  case (reach_delete_order s order_id rb s')
  then show ?case
    using delete_order_effect [of s order_id rb s'] by simp
qed

lemma update_order_doc:
  assumes "update_order s order_id u = (r, s')" and "(k, d) \<in> set (order_coll s')"
  shows "(k, d) \<in> set (order_coll s) \<or>
         (\<exists>d0 uf. (k, d0) \<in> set (order_coll s) \<and> build_update_fields d0 u = Inr uf \<and>
            d = set_fields uf d0)"
proof -
  from update_order_effect [OF assms(1)]
  consider "s' = s"
    | k0 d0 uf where "find_one (order_coll s) k0 = Some d0"
        "build_update_fields d0 u = Inr uf"
        "order_coll s' = fst (modify_first (order_coll s) k0 (set_fields uf))"
    by blast
  then show ?thesis
  proof cases
    case 1
    with assms(2) show ?thesis by simp
  next
    case 2
    from assms(2) 2(3) modify_first_set [of k d "order_coll s" k0 "set_fields uf"]
    have "(k, d) \<in> set (order_coll s) \<or>
          (k = k0 \<and> (\<exists>d1. find_one (order_coll s) k0 = Some d1 \<and> d = set_fields uf d1))"
      by simp
    with 2(1,2) find_one_set [OF 2(1)] show ?thesis by auto
  qed
qed

lemma reachable_orders_valid:
  "reachable s \<Longrightarrow> (k, d) \<in> set (order_coll s) \<Longrightarrow> list_all valid_OrderItem (items d)"
proof (induction arbitrary: k d rule: reachable.induct)
  case reach_empty
  then show ?case by (simp add: empty_db_def)
next
  case (reach_create_customer s new_id c r s')
  then show ?case
    using create_customer_effect [of s new_id c r s'] by simp
next
  case (reach_update_customer s cid c r s')
  then show ?case
    using update_customer_effect [of s cid c r s'] by simp
next
  case (reach_delete_customer s cid rb s')
  then show ?case
    using delete_customer_effect [of s cid rb s'] by simp
next
  case (reach_create_order s p new_id now ro s')
  then show ?case
    using create_order_effect [of s new_id now p ro s']
    by (auto simp: valid_OrderCreate_def)
next
  case (reach_update_order s u order_id ro s')
  from update_order_doc [OF reach_update_order.hyps(3) reach_update_order.prems]
  show ?case
    using reach_update_order.IH reach_update_order.hyps(2) set_fields_valid_items by blast
next
  case (reach_delete_order s order_id rb s')
  then show ?case
    using delete_order_effect [of s order_id rb s'] by blast
qed

section \<open>Facts about the example stores\<close>

lemma create_customer_example:
  "create_customer empty_db example_cid example_customer =
     (Inr (Some (example_cid, example_customer)), db_customer)"
  by (simp add: create_customer_def empty_db_def db_customer_def find_one_email_def
      create_document_def find_one_def)

lemma valid_example_item: "valid_OrderItem example_item"
  by (simp add: valid_OrderItem_def example_item_def float_le_def)

lemma valid_fuel_item: "valid_OrderItem fuel_item"
  by code_simp

lemma encodable_example_item: "bson_encodable [example_item]"
  by (simp add: bson_encodable_def int64_def example_item_def)

lemma encodable_fuel_item: "bson_encodable [fuel_item]"
  by (simp add: bson_encodable_def int64_def fuel_item_def)

lemma create_order_example:
  "create_order db_customer example_oid 0 example_order =
     (Inr (Some (example_oid, example_doc)), db_order)"
  by (simp add: create_order_def example_order_def ObjectId_example_cid db_customer_def
      find_one_def compute_totals_example create_document_def example_doc_def db_order_def
      Let_def encodable_example_item)

lemma create_order_fuel:
  "create_order db_customer example_oid 0 fuel_order =
     (Inr (Some (example_oid, fuel_doc)), db_fuel)"
  by (simp add: create_order_def fuel_order_def ObjectId_example_cid db_customer_def
      find_one_def compute_totals_fuel create_document_def fuel_doc_def db_fuel_def Let_def
      encodable_fuel_item)

lemma reachable_db_customer: "reachable db_customer"
  using reach_create_customer [OF reach_empty create_customer_example] .

lemma reachable_db_order: "reachable db_order"
proof (rule reach_create_order [OF reachable_db_customer _ create_order_example])
  show "valid_OrderCreate example_order"
    by (simp add: valid_OrderCreate_def example_order_def valid_example_item)
qed

lemma reachable_db_fuel: "reachable db_fuel"
proof (rule reach_create_order [OF reachable_db_customer _ create_order_fuel])
  show "valid_OrderCreate fuel_order"
    by (simp add: valid_OrderCreate_def fuel_order_def valid_fuel_item)
qed

lemma fuel_difference:
  "float_sub (Fin 1) (float_of_decimal 1 2) = float_of_decimal 99 2"
  by code_simp

lemma fuel_difference_rounded:
  "round2 (float_of_decimal 99 2) = float_of_decimal 99 2"
  by code_simp

lemma fuel_difference_not_total: "float_of_decimal 99 2 \<noteq> Fin 1"
  by code_simp

section \<open>Facts about updates\<close>

lemma update_order_found:
  assumes "ObjectId order_id = Inr k" and "find_one (order_coll s) k = Some d"
    and "build_update_fields d u = Inr uf" and "\<not> no_fields uf"
    and "encodable_fields uf"
  shows "update_order s order_id u =
           (Inr (Some (k, set_fields uf d)),
            s\<lparr>order_coll := fst (modify_first (order_coll s) k (set_fields uf))\<rparr>)"
  using assms modify_first_found [OF assms(2), of "set_fields uf"]
  by (simp add: update_order_def update_one_def split_beta)

lemma update_order_not_encodable:
  assumes "ObjectId order_id = Inr k" and "find_one (order_coll s) k = Some d"
    and "build_update_fields d u = Inr uf" and "\<not> encodable_fields uf"
  shows "update_order s order_id u = (Inl OverflowError, s)"
proof -
  from assms(4) have "\<not> no_fields uf"
    by (auto simp: no_fields_def encodable_fields_def)
  with assms show ?thesis
    by (simp add: update_order_def update_one_def)
qed

lemma update_order_no_fields:
  assumes "ObjectId order_id = Inr k" and "find_one (order_coll s) k = Some d"
    and "build_update_fields d u = Inr uf" and "no_fields uf"
  shows "update_order s order_id u = (Inr (Some (k, d)), s)"
  using assms by (simp add: update_order_def)

lemma update_order_error:
  assumes "ObjectId order_id = Inr k" and "find_one (order_coll s) k = Some d"
    and "build_update_fields d u = Inl e"
  shows "update_order s order_id u = (Inl e, s)"
  using assms by (simp add: update_order_def)

lemma build_update_fields_plain:
  assumes "ou_items u = None" and "ou_order_discount_percent u = None"
  shows "build_update_fields d u =
           Inr \<lparr>uf_status = ou_status u, uf_items = None, uf_order_discount_percent = None,
                uf_totals = None\<rparr>"
  using assms by (simp add: build_update_fields_def)

lemma build_update_fields_priced:
  assumes "ou_items u \<noteq> None \<or> ou_order_discount_percent u \<noteq> None"
    and "ou_items u = None \<Longrightarrow> list_all valid_OrderItem (items d)"
  shows "build_update_fields d u =
           (case compute_totals (case ou_items u of Some i \<Rightarrow> i | None \<Rightarrow> items d)
                   (case ou_order_discount_percent u of
                      Some y \<Rightarrow> y | None \<Rightarrow> order_discount_percent d) of
              Inl e \<Rightarrow> Inl e
            | Inr t \<Rightarrow>
                Inr \<lparr>uf_status = ou_status u, uf_items = ou_items u,
                     uf_order_discount_percent = ou_order_discount_percent u,
                     uf_totals = Some t\<rparr>)"
proof (cases "ou_items u")
  case None
  with assms(2) have "OrderItems_of_docs (items d) = Inr (items d)"
    by (simp add: OrderItems_of_docs_valid)
  with None assms(1) show ?thesis
    by (simp add: build_update_fields_def Let_def split: sum.splits)
next
  case (Some i)
  then show ?thesis
    by (simp add: build_update_fields_def Let_def split: sum.splits)
qed


lemma find_one_db_order: "find_one (order_coll db_order) example_oid = Some example_doc"
  by (simp add: db_order_def find_one_def)

lemma find_one_db_stale: "find_one (order_coll db_stale) example_oid = Some stale_doc"
  by (simp add: db_stale_def find_one_def)

lemma compute_totals_example_10:
  "compute_totals [example_item] (Fin 10) =
     Inr \<lparr>subtotal = Fin 100, discount_total = Fin 19, total = Fin 81\<rparr>"
  by code_simp

lemma ObjectId_nonempty: "ObjectId s = Inr k \<Longrightarrow> s \<noteq> []"
  by (auto simp: ObjectId_def split: if_splits)

lemma find_one_email_found:
  "(k, c) \<in> set coll \<Longrightarrow> email c = e \<Longrightarrow> find_one_email coll e \<noteq> None"
  by (auto simp: find_one_email_def find_None_iff)

lemma delete_customer_found:
  assumes "ObjectId cust_id = Inr ck" and "find_one (customer_coll s) ck = Some c"
  shows "delete_customer s cust_id =
           (Inr True, s\<lparr>customer_coll := fst (delete_one (customer_coll s) ck)\<rparr>)"
  using assms delete_one_count [of "customer_coll s" ck]
  by (simp add: delete_customer_def split_beta)

lemma update_order_outcome:
  assumes "ObjectId order_id = Inr k" and "find_one (order_coll s) k = Some d"
    and "update_order s order_id u = (r, s')"
  shows "(s' = s) \<or>
         (\<exists>uf. build_update_fields d u = Inr uf \<and>
            s' = s\<lparr>order_coll := fst (modify_first (order_coll s) k (set_fields uf))\<rparr>)"
  using assms
  by (auto simp: update_order_def update_one_def split_beta split: sum.splits if_splits)

lemma create_order_unresolved:
  assumes "\<not> resolves s (oc_customer_id p)"
  shows "\<exists>e. create_order s new_id now p = (Inl e, s) \<and>
           (\<forall>k. ObjectId (oc_customer_id p) = Inr k \<longrightarrow>
              e = HTTPException 400 ''Invalid customer_id'')"
proof (cases "ObjectId (oc_customer_id p)")
  case (Inl e)
  then show ?thesis by (simp add: create_order_def)
next
  case (Inr k)
  with assms have "find_one (customer_coll s) k = None"
    by (simp add: resolves_def)
  with Inr show ?thesis by (simp add: create_order_def)
qed

lemma update_order_supplied:
  assumes "ObjectId order_id = Inr k"
    and "find_one (order_coll s) k = Some d"
    and "ou_items u \<noteq> None \<or> ou_order_discount_percent u \<noteq> None"
    and "ou_items u = None \<Longrightarrow> list_all valid_OrderItem (items d)"
    and "its = (case ou_items u of Some i \<Rightarrow> i | None \<Rightarrow> items d)"
    and "x = (case ou_order_discount_percent u of
                Some y \<Rightarrow> y | None \<Rightarrow> order_discount_percent d)"
  shows "case compute_totals its x of
           Inl e \<Rightarrow> update_order s order_id u = (Inl e, s)
         | Inr t \<Rightarrow>
             if (case ou_items u of None \<Rightarrow> True | Some i \<Rightarrow> bson_encodable i) then
               \<exists>d' s'. update_order s order_id u = (Inr (Some (k, d')), s') \<and>
                 find_one (order_coll s') k = Some d' \<and>
                 items d' = its \<and> order_discount_percent d' = x \<and>
                 subtotal d' = subtotal t \<and> discount_total d' = discount_total t \<and>
                 total d' = total t
             else update_order s order_id u = (Inl OverflowError, s)"
proof -
  note b = build_update_fields_priced [OF assms(3), of d, OF assms(4), folded assms(5,6)]
  show ?thesis
  proof (cases "compute_totals its x")
    case (Inl e)
    with b have "build_update_fields d u = Inl e" by simp
    from update_order_error [OF assms(1,2) this] Inl show ?thesis by simp
  next
    case (Inr t)
    define uf where "uf = \<lparr>uf_status = ou_status u, uf_items = ou_items u,
      uf_order_discount_percent = ou_order_discount_percent u, uf_totals = Some t\<rparr>"
    from b Inr have bu: "build_update_fields d u = Inr uf" by (simp add: uf_def)
    have nf: "\<not> no_fields uf" by (simp add: no_fields_def uf_def)
    have enc: "encodable_fields uf =
                 (case ou_items u of None \<Rightarrow> True | Some i \<Rightarrow> bson_encodable i)"
      by (simp add: encodable_fields_def uf_def)
    show ?thesis
    proof (cases "encodable_fields uf")
      case True
      let ?s' = "s\<lparr>order_coll := fst (modify_first (order_coll s) k (set_fields uf))\<rparr>"
      have u: "update_order s order_id u = (Inr (Some (k, set_fields uf d)), ?s')"
        by (rule update_order_found [OF assms(1,2) bu nf True])
      have f: "find_one (order_coll ?s') k = Some (set_fields uf d)"
        using modify_first_found [OF assms(2), of "set_fields uf"] by simp
      have "items (set_fields uf d) = its" "order_discount_percent (set_fields uf d) = x"
        "subtotal (set_fields uf d) = subtotal t"
        "discount_total (set_fields uf d) = discount_total t"
        "total (set_fields uf d) = total t"
        by (simp_all add: set_fields_simps uf_def assms(5,6) split: option.splits)
      with u f have "\<exists>d' s'. update_order s order_id u = (Inr (Some (k, d')), s') \<and>
                 find_one (order_coll s') k = Some d' \<and>
                 items d' = its \<and> order_discount_percent d' = x \<and>
                 subtotal d' = subtotal t \<and> discount_total d' = discount_total t \<and>
                 total d' = total t"
        by blast
      with Inr True enc show ?thesis by simp
    next
      case False
      from update_order_not_encodable [OF assms(1,2) bu False] Inr False enc
      show ?thesis by simp
    qed
  qed
qed

lemma update_order_unsupplied:
  assumes "ObjectId order_id = Inr k"
    and "find_one (order_coll s) k = Some d"
    and "ou_items u = None" and "ou_order_discount_percent u = None"
  shows "\<exists>d' s'. update_order s order_id u = (Inr (Some (k, d')), s') \<and>
           find_one (order_coll s') k = Some d' \<and>
           subtotal d' = subtotal d \<and> discount_total d' = discount_total d \<and>
           total d' = total d \<and>
           items d' = items d \<and> order_discount_percent d' = order_discount_percent d"
proof -
  define uf where "uf = \<lparr>uf_status = ou_status u, uf_items = None,
    uf_order_discount_percent = None, uf_totals = (None :: totals option)\<rparr>"
  have bu: "build_update_fields d u = Inr uf"
    using build_update_fields_plain [OF assms(3,4), of d] by (simp add: uf_def)
  show ?thesis
  proof (cases "no_fields uf")
    case True
    from update_order_no_fields [OF assms(1,2) bu True] assms(2) show ?thesis by simp
  next
    case False
    have enc: "encodable_fields uf" by (simp add: encodable_fields_def uf_def)
    let ?s' = "s\<lparr>order_coll := fst (modify_first (order_coll s) k (set_fields uf))\<rparr>"
    have u: "update_order s order_id u = (Inr (Some (k, set_fields uf d)), ?s')"
      by (rule update_order_found [OF assms(1,2) bu False enc])
    have f: "find_one (order_coll ?s') k = Some (set_fields uf d)"
      using modify_first_found [OF assms(2), of "set_fields uf"] by simp
    have "subtotal (set_fields uf d) = subtotal d"
      "discount_total (set_fields uf d) = discount_total d"
      "total (set_fields uf d) = total d"
      "items (set_fields uf d) = items d"
      "order_discount_percent (set_fields uf d) = order_discount_percent d"
      by (simp_all add: set_fields_simps uf_def)
    with u f show ?thesis by auto
  qed
qed


section \<open>The claims\<close>

subsection \<open>C1: the stored derived fields\<close>

text \<open>
  C1, as the code has it. At every store that the endpoints can produce, the derived fields
  of every order are exactly the three amounts that \<^verbatim>\<open>compute_totals\<close> gives for the
  items and the discount stored with them. The three are rounded one by one, so no equation
  between the stored total and the difference of the other two is part of the statement.
\<close>

theorem stored_totals_are_computed:
  "reachable s \<Longrightarrow> (k, d) \<in> set (order_coll s) \<Longrightarrow>
   compute_totals (items d) (order_discount_percent d) =
     Inr \<lparr>subtotal = subtotal d, discount_total = discount_total d, total = total d\<rparr>"
proof (induction arbitrary: k d rule: reachable.induct)
  case reach_empty
  then show ?case by (simp add: empty_db_def)
next
  case (reach_create_customer s new_id c r s')
  then show ?case
    using create_customer_effect [of s new_id c r s'] by simp
next
  case (reach_update_customer s cid c r s')
  then show ?case
    using update_customer_effect [of s cid c r s'] by simp
next
  case (reach_delete_customer s cid rb s')
  then show ?case
    using delete_customer_effect [of s cid rb s'] by simp
next
  case (reach_create_order s p new_id now ro s')
  from create_order_effect [OF reach_create_order.hyps(3)]
  consider "s' = s"
    | t st where "compute_totals (oc_items p) (oc_order_discount_percent p) = Inr t"
        "order_coll s' = order_coll s @
           [(new_id, \<lparr>subtotal = subtotal t, discount_total = discount_total t,
                       total = total t, customer_id = oc_customer_id p, status = st,
                       order_discount_percent = oc_order_discount_percent p,
                       items = oc_items p, created_at = now\<rparr>)]"
    by blast
  then show ?case
  proof cases
    case 1
    with reach_create_order show ?thesis by simp
  next
    case 2
    with reach_create_order.prems reach_create_order.IH show ?thesis
      by (cases t) auto
  qed
next
  case (reach_update_order s u order_id ro s')
  from update_order_doc [OF reach_update_order.hyps(3) reach_update_order.prems]
  show ?case
    using reach_update_order.IH set_fields_priced unfolding priced_def by blast
next
  case (reach_delete_order s order_id rb s')
  then show ?case
    using delete_order_effect [of s order_id rb s'] by blast
qed


theorem stored_totals_are_computed_witness:
  "reachable db_order \<and> (example_oid, example_doc) \<in> set (order_coll db_order) \<and>
   compute_totals (items example_doc) (order_discount_percent example_doc) =
     Inr \<lparr>subtotal = subtotal example_doc, discount_total = discount_total example_doc,
          total = total example_doc\<rparr>"
proof -
  have m: "(example_oid, example_doc) \<in> set (order_coll db_order)"
    by (simp add: db_order_def)
  show ?thesis
    using stored_totals_are_computed [OF reachable_db_order m] reachable_db_order m by simp
qed

text \<open>
  C1 as it is written fails. One unit at 1.004 with an order discount of 0.6 percent is
  created in a store that holds the customer: the order is stored with subtotal 1.0,
  discount_total 0.01 and total 1.0, while 1.0 - 0.01 is 0.99, also after rounding to two
  decimals.
\<close>

theorem stored_total_counterexample:
  "create_order db_customer example_oid 0 fuel_order =
     (Inr (Some (example_oid, fuel_doc)), db_fuel) \<and>
   reachable db_fuel \<and>
   find_one (order_coll db_fuel) example_oid = Some fuel_doc \<and>
   subtotal fuel_doc = Fin 1 \<and>
   discount_total fuel_doc = float_of_decimal 1 2 \<and>
   total fuel_doc = Fin 1 \<and>
   float_sub (subtotal fuel_doc) (discount_total fuel_doc) = float_of_decimal 99 2 \<and>
   round2 (float_sub (subtotal fuel_doc) (discount_total fuel_doc)) = float_of_decimal 99 2 \<and>
   total fuel_doc \<noteq> float_sub (subtotal fuel_doc) (discount_total fuel_doc) \<and>
   total fuel_doc \<noteq> round2 (float_sub (subtotal fuel_doc) (discount_total fuel_doc))"
proof -
  have f: "find_one (order_coll db_fuel) example_oid = Some fuel_doc"
    by (simp add: db_fuel_def find_one_def)
  have v: "subtotal fuel_doc = Fin 1" "discount_total fuel_doc = float_of_decimal 1 2"
    "total fuel_doc = Fin 1"
    by (simp_all add: fuel_doc_def)
  have ne: "Fin 1 \<noteq> float_of_decimal 99 2"
    using fuel_difference_not_total by simp
  show ?thesis
    using create_order_fuel reachable_db_fuel f ne
    by (simp add: v fuel_difference fuel_difference_rounded)
qed

subsection \<open>C2: the field that an update leaves out\<close>

text \<open>
  C2. An update of an order of a store that the endpoints have produced, with items, a
  discount or both in the payload, prices the order again from \<open>its\<close> and \<open>x\<close>: the items of
  the payload, or the stored items when the payload has none, and the discount of the
  payload, or the stored discount when the payload has none. When the pricing raises, the
  update raises the same error and the store is as before. When it succeeds, the order is
  stored with these items, this discount and the three amounts computed from them, unless
  the driver cannot encode the items of the payload (a quantity beyond 8 bytes): then the
  update raises \<^verbatim>\<open>OverflowError\<close> and the store is as before.
\<close>

theorem update_order_reprices:
  assumes "reachable s"
    and "ObjectId order_id = Inr k"
    and "find_one (order_coll s) k = Some d"
    and "ou_items u \<noteq> None \<or> ou_order_discount_percent u \<noteq> None"
    and "its = (case ou_items u of Some i \<Rightarrow> i | None \<Rightarrow> items d)"
    and "x = (case ou_order_discount_percent u of
                Some y \<Rightarrow> y | None \<Rightarrow> order_discount_percent d)"
  shows "case compute_totals its x of
           Inl e \<Rightarrow> update_order s order_id u = (Inl e, s)
         | Inr t \<Rightarrow>
             if (case ou_items u of None \<Rightarrow> True | Some i \<Rightarrow> bson_encodable i) then
               \<exists>d' s'. update_order s order_id u = (Inr (Some (k, d')), s') \<and>
                 find_one (order_coll s') k = Some d' \<and>
                 items d' = its \<and> order_discount_percent d' = x \<and>
                 subtotal d' = subtotal t \<and> discount_total d' = discount_total t \<and>
                 total d' = total t
             else update_order s order_id u = (Inl OverflowError, s)"
proof -
  have valid: "list_all valid_OrderItem (items d)"
    using reachable_orders_valid [OF assms(1) find_one_set [OF assms(3)]] .
  show ?thesis
    by (rule update_order_supplied [OF assms(2,3,4) valid assms(5,6)])
qed

theorem update_order_reprices_witness:
  "reachable db_order \<and> ObjectId example_oid = Inr example_oid \<and>
   find_one (order_coll db_order) example_oid = Some example_doc \<and>
   items example_doc = [example_item] \<and>
   (\<exists>d' s'. update_order db_order example_oid
       \<lparr>ou_status = None, ou_order_discount_percent = Some (Fin 10), ou_items = None\<rparr> =
       (Inr (Some (example_oid, d')), s') \<and>
      find_one (order_coll s') example_oid = Some d' \<and>
      items d' = [example_item] \<and> order_discount_percent d' = Fin 10 \<and>
      subtotal d' = Fin 100 \<and> discount_total d' = Fin 19 \<and> total d' = Fin 81)"
proof -
  let ?u = "\<lparr>ou_status = None, ou_order_discount_percent = Some (Fin 10), ou_items = None\<rparr>"
  have i: "items example_doc = [example_item]"
    by (simp add: example_doc_def)
  have "case compute_totals [example_item] (Fin 10) of
          Inl e \<Rightarrow> update_order db_order example_oid ?u = (Inl e, db_order)
        | Inr t \<Rightarrow>
            if (case ou_items ?u of None \<Rightarrow> True | Some i \<Rightarrow> bson_encodable i) then
              \<exists>d' s'. update_order db_order example_oid ?u =
                  (Inr (Some (example_oid, d')), s') \<and>
                find_one (order_coll s') example_oid = Some d' \<and>
                items d' = [example_item] \<and> order_discount_percent d' = Fin 10 \<and>
                subtotal d' = subtotal t \<and> discount_total d' = discount_total t \<and>
                total d' = total t
            else update_order db_order example_oid ?u = (Inl OverflowError, db_order)"
    by (rule update_order_reprices
          [OF reachable_db_order ObjectId_example_oid find_one_db_order])
       (simp_all add: i)
  then show ?thesis
    using reachable_db_order ObjectId_example_oid find_one_db_order i
    by (simp add: compute_totals_example_10)
qed

subsection \<open>C3: when the derived fields are computed again\<close>

text \<open>
  C3. For an existing order, \<^verbatim>\<open>update_order\<close> computes the derived fields again exactly
  when the payload supplies items or a discount. An update that supplies neither, be it a
  change of status or no field at all, succeeds and leaves the order with the subtotal,
  discount total and total, the items and the discount it had, whatever a new pricing of
  these items would give. An update that supplies one of them prices from the payload and
  the stored order: it raises the error of the pricing, or stores the three amounts that the
  pricing gives, or raises \<^verbatim>\<open>OverflowError\<close> when the driver cannot encode the items of
  the payload. When the payload has no items, \<^verbatim>\<open>OrderItem(**it)\<close> validates the stored
  ones first, so this part is stated for stored items that meet the schema, as they do in
  every store that the endpoints produce (fact \<open>reachable_orders_valid\<close>). And the
  dictionary of fields to write holds totals exactly when items or a discount is supplied.
\<close>

theorem update_order_recomputes_iff:
  assumes "ObjectId order_id = Inr k"
    and "find_one (order_coll s) k = Some d"
  shows "(ou_items u = None \<and> ou_order_discount_percent u = None \<longrightarrow>
            (\<exists>d' s'. update_order s order_id u = (Inr (Some (k, d')), s') \<and>
               find_one (order_coll s') k = Some d' \<and>
               subtotal d' = subtotal d \<and> discount_total d' = discount_total d \<and>
               total d' = total d \<and>
               items d' = items d \<and> order_discount_percent d' = order_discount_percent d)) \<and>
         (ou_items u \<noteq> None \<or> ou_order_discount_percent u \<noteq> None \<longrightarrow>
          (ou_items u = None \<longrightarrow> list_all valid_OrderItem (items d)) \<longrightarrow>
            (case compute_totals (case ou_items u of Some i \<Rightarrow> i | None \<Rightarrow> items d)
                    (case ou_order_discount_percent u of
                       Some y \<Rightarrow> y | None \<Rightarrow> order_discount_percent d) of
               Inl e \<Rightarrow> update_order s order_id u = (Inl e, s)
             | Inr t \<Rightarrow>
                 if (case ou_items u of None \<Rightarrow> True | Some i \<Rightarrow> bson_encodable i) then
                   \<exists>d' s'. update_order s order_id u = (Inr (Some (k, d')), s') \<and>
                     find_one (order_coll s') k = Some d' \<and>
                     subtotal d' = subtotal t \<and> discount_total d' = discount_total t \<and>
                     total d' = total t
                 else update_order s order_id u = (Inl OverflowError, s))) \<and>
         (\<forall>uf. build_update_fields d u = Inr uf \<longrightarrow>
            (uf_totals uf \<noteq> None \<longleftrightarrow>
             ou_items u \<noteq> None \<or> ou_order_discount_percent u \<noteq> None))"
proof (intro conjI allI impI)
  assume "ou_items u = None \<and> ou_order_discount_percent u = None"
  then show "\<exists>d' s'. update_order s order_id u = (Inr (Some (k, d')), s') \<and>
          find_one (order_coll s') k = Some d' \<and>
          subtotal d' = subtotal d \<and> discount_total d' = discount_total d \<and>
          total d' = total d \<and>
          items d' = items d \<and> order_discount_percent d' = order_discount_percent d"
    using update_order_unsupplied [OF assms] by blast
next
  let ?its = "case ou_items u of Some i \<Rightarrow> i | None \<Rightarrow> items d"
  let ?x = "case ou_order_discount_percent u of
              Some y \<Rightarrow> y | None \<Rightarrow> order_discount_percent d"
  assume sup: "ou_items u \<noteq> None \<or> ou_order_discount_percent u \<noteq> None"
    and v: "ou_items u = None \<longrightarrow> list_all valid_OrderItem (items d)"
  from v have v': "ou_items u = None \<Longrightarrow> list_all valid_OrderItem (items d)" by simp
  from update_order_supplied [OF assms sup v', of ?its ?x]
  show "case compute_totals ?its ?x of
          Inl e \<Rightarrow> update_order s order_id u = (Inl e, s)
        | Inr t \<Rightarrow>
            if (case ou_items u of None \<Rightarrow> True | Some i \<Rightarrow> bson_encodable i) then
              \<exists>d' s'. update_order s order_id u = (Inr (Some (k, d')), s') \<and>
                find_one (order_coll s') k = Some d' \<and>
                subtotal d' = subtotal t \<and> discount_total d' = discount_total t \<and>
                total d' = total t
            else update_order s order_id u = (Inl OverflowError, s)"
    by (auto split: sum.splits if_splits)
next
  fix uf
  assume "build_update_fields d u = Inr uf"
  from build_update_fields_Inr [OF this]
  show "uf_totals uf \<noteq> None \<longleftrightarrow>
        ou_items u \<noteq> None \<or> ou_order_discount_percent u \<noteq> None"
    by (auto split: if_splits)
qed

theorem update_order_recomputes_iff_witness:
  "ObjectId example_oid = Inr example_oid \<and>
   find_one (order_coll db_stale) example_oid = Some stale_doc \<and>
   list_all valid_OrderItem (items stale_doc) \<and>
   compute_totals (items stale_doc) (order_discount_percent stale_doc) =
     Inr \<lparr>subtotal = Fin 100, discount_total = Fin (29 / 2), total = Fin (171 / 2)\<rparr> \<and>
   (\<exists>d' s'. update_order db_stale example_oid
       \<lparr>ou_status = Some ''Paid'', ou_order_discount_percent = None, ou_items = None\<rparr> =
       (Inr (Some (example_oid, d')), s') \<and>
      find_one (order_coll s') example_oid = Some d' \<and>
      subtotal d' = Fin 7 \<and> discount_total d' = Fin 7 \<and> total d' = Fin 7) \<and>
   (\<exists>d' s'. update_order db_stale example_oid
       \<lparr>ou_status = None, ou_order_discount_percent = Some (Fin 10), ou_items = None\<rparr> =
       (Inr (Some (example_oid, d')), s') \<and>
      find_one (order_coll s') example_oid = Some d' \<and>
      subtotal d' = Fin 100 \<and> discount_total d' = Fin 19 \<and> total d' = Fin 81)"
proof -
  let ?u = "\<lparr>ou_status = Some ''Paid'', ou_order_discount_percent = None, ou_items = None\<rparr>"
  let ?w = "\<lparr>ou_status = None, ou_order_discount_percent = Some (Fin 10), ou_items = None\<rparr>"
  have i: "items stale_doc = [example_item]"
    by (simp add: stale_doc_def)
  have vi: "list_all valid_OrderItem (items stale_doc)"
    by (simp add: i valid_example_item)
  have c: "compute_totals (items stale_doc) (order_discount_percent stale_doc) =
     Inr \<lparr>subtotal = Fin 100, discount_total = Fin (29 / 2), total = Fin (171 / 2)\<rparr>"
    by (simp add: stale_doc_def compute_totals_example)
  have v: "subtotal stale_doc = Fin 7" "discount_total stale_doc = Fin 7"
    "total stale_doc = Fin 7"
    by (simp_all add: stale_doc_def)
  from update_order_recomputes_iff [OF ObjectId_example_oid find_one_db_stale, of ?u]
  have 1: "\<exists>d' s'. update_order db_stale example_oid ?u = (Inr (Some (example_oid, d')), s') \<and>
      find_one (order_coll s') example_oid = Some d' \<and>
      subtotal d' = Fin 7 \<and> discount_total d' = Fin 7 \<and> total d' = Fin 7"
    by (simp add: v) blast
  from update_order_recomputes_iff [OF ObjectId_example_oid find_one_db_stale, of ?w]
  have 2: "\<exists>d' s'. update_order db_stale example_oid ?w = (Inr (Some (example_oid, d')), s') \<and>
      find_one (order_coll s') example_oid = Some d' \<and>
      subtotal d' = Fin 100 \<and> discount_total d' = Fin 19 \<and> total d' = Fin 81"
    by (simp add: i valid_example_item compute_totals_example_10)
  show ?thesis
    using ObjectId_example_oid find_one_db_stale vi c 1 2 by blast
qed

subsection \<open>C4: the worked example\<close>

text \<open>
  C4. One item of quantity 2 at 50.00 with an item discount of 10 percent, under an order
  discount of 5 percent: the loop leaves the line subtotal 100.0 and the line discount 10.0
  in its two accumulators, the amount after item discounts is 90.0, the order discount is
  4.5, and \<^verbatim>\<open>compute_totals\<close> returns subtotal 100.0, discount_total 14.5 and total 85.5.
\<close>

theorem compute_totals_worked_example:
  "totals_loop
     [\<lparr>item_name = ''widget'', quantity = 2, unit_price = Fin 50, discount_percent = Fin 10\<rparr>]
     (Fin 0) (Fin 0) = Inr (Fin 100, Fin 10) \<and>
   float_sub (Fin 100) (Fin 10) = Fin 90 \<and>
   float_mul (Fin 90) (float_div_100 (Fin 5)) = Fin (9 / 2) \<and>
   compute_totals
     [\<lparr>item_name = ''widget'', quantity = 2, unit_price = Fin 50, discount_percent = Fin 10\<rparr>]
     (Fin 5) =
     Inr \<lparr>subtotal = Fin 100, discount_total = Fin (29 / 2), total = Fin (171 / 2)\<rparr>"
proof -
  have 1: "totals_loop [example_item] (Fin 0) (Fin 0) = Inr (Fin 100, Fin 10)"
    by code_simp
  have 2: "float_sub (Fin 100) (Fin 10) = Fin 90"
    by code_simp
  have 3: "float_mul (Fin 90) (float_div_100 (Fin 5)) = Fin (9 / 2)"
    by code_simp
  show ?thesis
    using 1 2 3 compute_totals_example unfolding example_item_def by simp
qed

subsection \<open>C5: an order for a customer that does not exist\<close>

text \<open>
  C5 fails in the code at a customer id that \<^verbatim>\<open>ObjectId\<close> cannot read. The string
  \<^verbatim>\<open>abc\<close> names no customer; \<^verbatim>\<open>create_order\<close> hands it to \<^verbatim>\<open>ObjectId\<close> before the
  lookup, \<^verbatim>\<open>InvalidId\<close> is raised there, and the call ends with that error instead of the
  \<^verbatim>\<open>HTTPException\<close> with status 400 that the guard after the lookup raises for a
  customer that does not exist (fact \<open>create_order_unresolved\<close>: every id that
  \<^verbatim>\<open>ObjectId\<close> reads and that names no customer gets the 400). The store is as before.
\<close>

theorem create_order_malformed_id:
  "ObjectId ''abc'' = Inl InvalidId \<and>
   \<not> resolves db_customer ''abc'' \<and>
   create_order db_customer example_oid 0
     \<lparr>oc_customer_id = ''abc'', oc_status = None, oc_order_discount_percent = Fin 5,
      oc_items = [example_item]\<rparr> = (Inl InvalidId, db_customer) \<and>
   InvalidId \<noteq> HTTPException 400 ''Invalid customer_id''"
  by (simp add: resolves_def ObjectId_def create_order_def)

subsection \<open>C6: a second customer with the same email\<close>

text \<open>
  C6. When a stored customer has the very email of the new customer, character for
  character, \<^verbatim>\<open>create_customer\<close> raises the \<^verbatim>\<open>HTTPException\<close> with status 400 and
  detail \<^verbatim>\<open>Email already exists\<close>, and the store is exactly as it was.
\<close>

theorem create_customer_duplicate_email:
  "(k, c) \<in> set (customer_coll s) \<Longrightarrow> email c = email customer \<Longrightarrow>
   create_customer s new_id customer = (Inl (HTTPException 400 ''Email already exists''), s)"
  using find_one_email_found [of k c "customer_coll s" "email customer"]
  by (auto simp: create_customer_def split: option.splits)

theorem create_customer_duplicate_email_witness:
  "(example_cid, example_customer) \<in> set (customer_coll db_customer) \<and>
   email example_customer = ''ada@example.org'' \<and>
   create_customer db_customer example_oid
     \<lparr>name = ''Ada L.'', email = ''ada@example.org'', phone = None, address = None,
      note_text = None\<rparr> =
     (Inl (HTTPException 400 ''Email already exists''), db_customer)"
proof -
  let ?c = "\<lparr>name = ''Ada L.'', email = ''ada@example.org'', phone = None, address = None,
      note_text = None\<rparr>"
  have m: "(example_cid, example_customer) \<in> set (customer_coll db_customer)"
    by (simp add: db_customer_def)
  have e: "email example_customer = email ?c"
    by (simp add: example_customer_def)
  from create_customer_duplicate_email [OF m e, of example_oid] m e
  show ?thesis by simp
qed

subsection \<open>C7: no items\<close>

text \<open>
  C7. For every order discount between 0 and 100, \<^verbatim>\<open>compute_totals\<close> on the empty
  list of items returns 0.0 for the subtotal, for the discount total and for the total.
\<close>

theorem compute_totals_no_items:
  "0 \<le> r \<Longrightarrow> r \<le> 100 \<Longrightarrow>
   compute_totals [] (Fin r) =
     Inr \<lparr>subtotal = Fin 0, discount_total = Fin 0, total = Fin 0\<rparr>"
proof -
  assume "0 \<le> r" "r \<le> 100"
  then have "\<bar>r\<bar> < overflow_threshold"
    unfolding overflow_threshold_code by simp
  then have "finite_float (Fin r)"
    by (simp add: finite_float_def)
  then show ?thesis by (rule compute_totals_empty)
qed

theorem compute_totals_no_items_witness:
  "(0::rat) \<le> 5 \<and> (5::rat) \<le> 100 \<and>
   compute_totals [] (Fin 5) =
     Inr \<lparr>subtotal = Fin 0, discount_total = Fin 0, total = Fin 0\<rparr>"
  using compute_totals_no_items [of 5] by simp

subsection \<open>C8: reading an order whose customer is gone\<close>

text \<open>
  C8. In a store that the endpoints have produced, a customer that an order refers to is
  deleted: \<^verbatim>\<open>delete_customer\<close> succeeds and leaves the orders as they were, and
  \<^verbatim>\<open>get_order\<close> on the store it leaves returns the order as it is stored, with \<^verbatim>\<open>None\<close>
  for the name of the customer.
\<close>

theorem get_order_after_delete_customer:
  assumes "reachable s"
    and "ObjectId cust_id = Inr ck"
    and "find_one (customer_coll s) ck = Some c"
    and "ObjectId order_id = Inr k"
    and "find_one (order_coll s) k = Some d"
    and "ObjectId (customer_id d) = Inr ck"
  shows "\<exists>s'. delete_customer s cust_id = (Inr True, s') \<and>
           order_coll s' = order_coll s \<and>
           get_order s' order_id = Inr (k, d, None)"
proof -
  let ?s' = "s\<lparr>customer_coll := fst (delete_one (customer_coll s) ck)\<rparr>"
  have del: "delete_customer s cust_id = (Inr True, ?s')"
    by (rule delete_customer_found [OF assms(2,3)])
  have gone: "find_one (customer_coll ?s') ck = None"
    using delete_one_gone [OF reachable_customer_keys [OF assms(1)]] by simp
  have "customer_id d \<noteq> []"
    by (rule ObjectId_nonempty [OF assms(6)])
  with assms(4,5,6) gone have "get_order ?s' order_id = Inr (k, d, None)"
    by (simp add: get_order_def)
  with del show ?thesis by simp
qed

theorem get_order_after_delete_customer_witness:
  "reachable db_order \<and> ObjectId example_cid = Inr example_cid \<and>
   find_one (customer_coll db_order) example_cid = Some example_customer \<and>
   ObjectId example_oid = Inr example_oid \<and>
   find_one (order_coll db_order) example_oid = Some example_doc \<and>
   ObjectId (customer_id example_doc) = Inr example_cid \<and>
   get_order db_order example_oid = Inr (example_oid, example_doc, Some ''Ada'') \<and>
   (\<exists>s'. delete_customer db_order example_cid = (Inr True, s') \<and>
      order_coll s' = order_coll db_order \<and>
      get_order s' example_oid = Inr (example_oid, example_doc, None))"
proof -
  have c: "find_one (customer_coll db_order) example_cid = Some example_customer"
    by (simp add: db_order_def find_one_def)
  have i: "ObjectId (customer_id example_doc) = Inr example_cid"
    by (simp add: example_doc_def ObjectId_example_cid)
  have n: "customer_id example_doc \<noteq> []"
    by (rule ObjectId_nonempty [OF i])
  have g: "get_order db_order example_oid = Inr (example_oid, example_doc, Some ''Ada'')"
    using n by (simp add: get_order_def ObjectId_example_oid find_one_db_order i c
        example_customer_def)
  from get_order_after_delete_customer
         [OF reachable_db_order ObjectId_example_cid c ObjectId_example_oid find_one_db_order i]
  show ?thesis
    using reachable_db_order ObjectId_example_cid c ObjectId_example_oid find_one_db_order i g
    by simp
qed

subsection \<open>C9: what an update cannot change\<close>

text \<open>
  C9. A \<^verbatim>\<open>PUT\<close> on an existing order, whatever its body and whether it succeeds or not,
  leaves the customers alone, leaves every other order alone, and leaves the order with the
  customer reference and the creation time it had. Its status, items and discount are the
  old ones or the ones of the body, and its subtotal, discount total and total are the old
  ones or the ones that \<^verbatim>\<open>compute_totals\<close> gives for the items and discount now stored.
  A \<^verbatim>\<open>customer_id\<close>, \<^verbatim>\<open>subtotal\<close>, \<^verbatim>\<open>discount_total\<close> or \<^verbatim>\<open>total\<close> in the body
  changes neither the answer nor the store.
\<close>

theorem put_order_frame:
  assumes "ObjectId order_id = Inr k"
    and "find_one (order_coll s) k = Some d"
    and "put_order s order_id b = (r, s')"
  shows "customer_coll s' = customer_coll s \<and>
         (\<forall>k'. k' \<noteq> k \<longrightarrow> find_one (order_coll s') k' = find_one (order_coll s) k') \<and>
         (\<exists>d'. find_one (order_coll s') k = Some d' \<and>
            customer_id d' = customer_id d \<and> created_at d' = created_at d \<and>
            (status d' = status d \<or> body_status b = Some (status d')) \<and>
            (items d' = items d \<or> body_items b = Some (items d')) \<and>
            (order_discount_percent d' = order_discount_percent d \<or>
             body_order_discount_percent b = Some (order_discount_percent d')) \<and>
            (subtotal d' = subtotal d \<and> discount_total d' = discount_total d \<and>
             total d' = total d \<or>
             compute_totals (items d') (order_discount_percent d') =
               Inr \<lparr>subtotal = subtotal d', discount_total = discount_total d',
                    total = total d'\<rparr>)) \<and>
         put_order s order_id
           (b\<lparr>body_customer_id := cu, body_subtotal := x, body_discount_total := y,
              body_total := z\<rparr>) = (r, s')"
proof -
  let ?u = "parse_OrderUpdate b"
  have u: "update_order s order_id ?u = (r, s')"
    using assms(3) by (simp add: put_order_def)
  have same: "put_order s order_id
           (b\<lparr>body_customer_id := cu, body_subtotal := x, body_discount_total := y,
              body_total := z\<rparr>) = (r, s')"
    using assms(3) by (simp add: put_order_def parse_OrderUpdate_def)
  from update_order_outcome [OF assms(1,2) u]
  consider "s' = s"
    | uf where "build_update_fields d ?u = Inr uf"
        "s' = s\<lparr>order_coll := fst (modify_first (order_coll s) k (set_fields uf))\<rparr>"
    by blast
  then show ?thesis
  proof cases
    case 1
    with assms(2) same show ?thesis by simp
  next
    case 2
    note b = build_update_fields_Inr [OF 2(1)]
    let ?d' = "set_fields uf d"
    have f: "find_one (order_coll s') k = Some ?d'"
      using modify_first_found [OF assms(2), of "set_fields uf"] 2(2) by simp
    have others: "\<forall>k'. k' \<noteq> k \<longrightarrow> find_one (order_coll s') k' = find_one (order_coll s) k'"
      using 2(2) by (simp add: modify_first_other)
    have st: "status ?d' = status d \<or> body_status b = Some (status ?d')"
      using b by (auto simp: set_fields_simps parse_OrderUpdate_def split: option.splits)
    have it: "items ?d' = items d \<or> body_items b = Some (items ?d')"
      using b by (auto simp: set_fields_simps parse_OrderUpdate_def split: option.splits)
    have od: "order_discount_percent ?d' = order_discount_percent d \<or>
              body_order_discount_percent b = Some (order_discount_percent ?d')"
      using b by (auto simp: set_fields_simps parse_OrderUpdate_def split: option.splits)
    have tt: "subtotal ?d' = subtotal d \<and> discount_total ?d' = discount_total d \<and>
              total ?d' = total d \<or>
              compute_totals (items ?d') (order_discount_percent ?d') =
                Inr \<lparr>subtotal = subtotal ?d', discount_total = discount_total ?d',
                     total = total ?d'\<rparr>"
    proof (cases "uf_totals uf")
      case None
      then show ?thesis by (simp add: set_fields_simps)
    next
      case (Some t)
      with b have "compute_totals
          (case ou_items ?u of Some its \<Rightarrow> its | None \<Rightarrow> items d)
          (case ou_order_discount_percent ?u of
             Some x \<Rightarrow> x | None \<Rightarrow> order_discount_percent d) = Inr t"
        by (auto split: if_splits)
      with b Some show ?thesis
        by (cases t) (auto simp: set_fields_simps split: option.splits)
    qed
    have "customer_coll s' = customer_coll s"
      using 2(2) by simp
    with f others st it od tt same show ?thesis
      by (simp add: set_fields_simps)
  qed
qed

theorem put_order_frame_witness:
  "ObjectId example_oid = Inr example_oid \<and>
   find_one (order_coll db_order) example_oid = Some example_doc \<and>
   put_order db_order example_oid
     \<lparr>body_status = Some ''Paid'', body_order_discount_percent = None, body_items = None,
      body_customer_id = Some ''000000000000000000000000'', body_subtotal = Some (Fin 1),
      body_discount_total = Some (Fin 0), body_total = Some (Fin 1)\<rparr> =
     (Inr (Some (example_oid, example_doc\<lparr>status := ''Paid''\<rparr>)),
      db_order\<lparr>order_coll := [(example_oid, example_doc\<lparr>status := ''Paid''\<rparr>)]\<rparr>) \<and>
   customer_id (example_doc\<lparr>status := ''Paid''\<rparr>) = customer_id example_doc \<and>
   total (example_doc\<lparr>status := ''Paid''\<rparr>) = Fin (171 / 2) \<and>
   put_order db_order example_oid
     \<lparr>body_status = Some ''Paid'', body_order_discount_percent = None, body_items = None,
      body_customer_id = None, body_subtotal = None,
      body_discount_total = None, body_total = None\<rparr> =
     (Inr (Some (example_oid, example_doc\<lparr>status := ''Paid''\<rparr>)),
      db_order\<lparr>order_coll := [(example_oid, example_doc\<lparr>status := ''Paid''\<rparr>)]\<rparr>)"
proof -
  let ?b = "\<lparr>body_status = Some ''Paid'', body_order_discount_percent = None,
      body_items = None,
      body_customer_id = Some ''000000000000000000000000'', body_subtotal = Some (Fin 1),
      body_discount_total = Some (Fin 0), body_total = Some (Fin 1)\<rparr>"
  let ?d' = "example_doc\<lparr>status := ''Paid''\<rparr>"
  let ?s' = "db_order\<lparr>order_coll := [(example_oid, ?d')]\<rparr>"
  have p: "put_order db_order example_oid ?b = (Inr (Some (example_oid, ?d')), ?s')"
    by (simp add: put_order_def parse_OrderUpdate_def update_order_def ObjectId_example_oid
        find_one_db_order build_update_fields_def no_fields_def set_fields_def
        update_one_def encodable_fields_def)
       (simp add: db_order_def find_one_def set_fields_def)
  from put_order_frame [OF ObjectId_example_oid find_one_db_order p, of None None None None]
  have "put_order db_order example_oid
     \<lparr>body_status = Some ''Paid'', body_order_discount_percent = None, body_items = None,
      body_customer_id = None, body_subtotal = None,
      body_discount_total = None, body_total = None\<rparr> = (Inr (Some (example_oid, ?d')), ?s')"
    by simp
  then show ?thesis
    using ObjectId_example_oid find_one_db_order p by (simp add: example_doc_def)
qed

subsection \<open>C10: an update to no items\<close>




end
